theory Spec2Isabelle
  imports
    Complex_Main
    "HOL-Library.AList"
    "HOL-Library.Char_ord"
    "HOL-Library.List_Lexorder"
    "HOL-Library.Sublist"
begin

section \<open>The data model of \<^verbatim>\<open>rotator.py\<close>\<close>

text \<open>
  Paths are the strings that \<^verbatim>\<open>str(Path(p))\<close> yields, so a path is taken in pathlib's
  normal form and \<^verbatim>\<open>str(Path(p)) = p\<close>. File contents are byte strings; a HOL
  \<^typ>\<open>char\<close> is one byte.
\<close>

type_synonym path = string
type_synonym bytes = string

text \<open>
  \<^verbatim>\<open>RotationPolicy\<close> (lines 22-29) is a plain dataclass: its constructor stores the five
  fields and checks nothing. \<^verbatim>\<open>max_size_mb\<close> is a Python float; every finite float is a
  rational number, and \<^verbatim>\<open>st_size / (1024 * 1024)\<close> is exact for sizes below \<open>2 ^ 53\<close>,
  so the threshold comparison is modelled over \<^typ>\<open>rat\<close>.
\<close>

record RotationPolicy =
  max_size_mb :: rat
  max_age_days :: int
  compress :: string
  timestamp_format :: string
  backup_count :: int

text \<open>
  \<^verbatim>\<open>RotationResult\<close> (lines 32-39). Sizes are what \<^verbatim>\<open>st_size\<close> reports, natural numbers.
  Instants are integers (microseconds, the resolution of \<^verbatim>\<open>datetime\<close>).
\<close>

record RotationResult =
  source :: path
  destination :: path
  original_size :: nat
  compressed_size :: "nat option"
  timestamp :: int

text \<open>The engine object (lines 42-53): the policy and the history \<^verbatim>\<open>self.results\<close>.\<close>

record LogRotator =
  policy :: RotationPolicy
  results :: "RotationResult list"

text \<open>The exceptions that the calls of the source can raise; they are returned as values.\<close>

datatype error = FileNotFoundError | IsADirectoryError | PermissionError | OSError

text \<open>
  The constructor that \<^verbatim>\<open>@dataclass\<close> generates for \<^verbatim>\<open>RotationPolicy\<close>: it assigns the
  five fields. It has no \<^verbatim>\<open>__post_init__\<close> and no \<^verbatim>\<open>raise\<close>, so the error branch of its
  result type is never taken.
\<close>

definition RotationPolicy_init ::
  "rat \<Rightarrow> int \<Rightarrow> string \<Rightarrow> string \<Rightarrow> int \<Rightarrow> error + RotationPolicy" where
  "RotationPolicy_init m a c f b =
     Inr \<lparr>max_size_mb = m, max_age_days = a, compress = c, timestamp_format = f,
          backup_count = b\<rparr>"

text \<open>The field defaults, and \<^verbatim>\<open>LogRotator.__init__\<close> (lines 51-53).\<close>

definition RotationPolicy_default :: RotationPolicy where
  "RotationPolicy_default =
     \<lparr>max_size_mb = 100, max_age_days = 30, compress = ''gzip'',
      timestamp_format = ''%Y%m%d_%H%M%S'', backup_count = 10\<rparr>"

definition LogRotator_init :: "RotationPolicy option \<Rightarrow> LogRotator" where
  "LogRotator_init pol =
     \<lparr>policy = (case pol of Some p \<Rightarrow> p | None \<Rightarrow> RotationPolicy_default), results = []\<rparr>"

subsection \<open>The file system\<close>

text \<open>
  A file system is an association list from paths to nodes, read as a map by
  \<^const>\<open>map_of\<close>; the list gives directory listings an order. Every path names its own
  node: symbolic links, hard links and \<^verbatim>\<open>..\<close> components are left out. A regular file has
  its content and its modification time; a directory has the size that \<^verbatim>\<open>stat\<close> reports
  for it and its modification time.
\<close>

datatype node = File bytes int | Dir nat int

type_synonym fs = "(path \<times> node) list"

fun st_size :: "node \<Rightarrow> nat" where
  "st_size (File bs t) = length bs"
| "st_size (Dir n t) = n"

fun st_mtime :: "node \<Rightarrow> int" where
  "st_mtime (File bs t) = t"
| "st_mtime (Dir n t) = t"


text \<open>\<^verbatim>\<open>Path.exists()\<close> and \<^verbatim>\<open>Path.stat()\<close>; the latter raises on a missing path.\<close>

definition path_exists :: "fs \<Rightarrow> path \<Rightarrow> bool" where
  "path_exists fs p = (map_of fs p \<noteq> None)"

definition stat :: "fs \<Rightarrow> path \<Rightarrow> error + node" where
  "stat fs p = (case map_of fs p of None \<Rightarrow> Inl FileNotFoundError | Some n \<Rightarrow> Inr n)"

subsection \<open>What the engine takes from outside\<close>

text \<open>
  The two stream openers of the table \<^verbatim>\<open>COMPRESSORS\<close>, \<^verbatim>\<open>gzip.open\<close> and \<^verbatim>\<open>bz2.open\<close>.
\<close>

datatype opener = GzipOpen | Bz2Open

text \<open>
  How a write to a path goes wrong, if it does: \<open>Denied\<close> makes every opening for writing
  and every unlink of the path raise before anything changes; \<open>FailsAfter k\<close> makes a write
  of more than \<open>k\<close> bytes raise when \<open>k\<close> bytes are on disk (disk full, device error).
\<close>

datatype fault = NoFault | Denied | FailsAfter nat

text \<open>
  The environment of one call: the clock reading of \<^verbatim>\<open>datetime.now()\<close> (taken as constant
  during the call), the library functions \<^verbatim>\<open>strftime\<close> and \<^verbatim>\<open>glob.glob\<close>'s matching of a
  pattern against a path, the bytes a compressing stream leaves in the destination once
  all of the input has been written to it (a gzip header holds the file name, hence the
  path argument; see \<open>compressed\<close> below), and the faults of the storage.
\<close>

record env =
  now :: int
  strftime :: "string \<Rightarrow> int \<Rightarrow> string"
  glob_match :: "string \<Rightarrow> path \<Rightarrow> bool"
  encode :: "opener \<Rightarrow> path \<Rightarrow> bytes \<Rightarrow> bytes"
  fault :: "path \<Rightarrow> fault"

text \<open>
  A gzip stream starts with the two bytes \<open>1f 8b\<close> and a bzip2 stream with \<open>BZh\<close>, whatever
  the input; \<^const>\<open>encode\<close> gives the bytes after them.
\<close>

fun magic :: "opener \<Rightarrow> bytes" where
  "magic GzipOpen = [CHR 0x1F, CHR 0x8B]"
| "magic Bz2Open = ''BZh''"

definition compressed :: "env \<Rightarrow> opener \<Rightarrow> path \<Rightarrow> bytes \<Rightarrow> bytes" where
  "compressed E opn dest data = magic opn @ encode E opn dest data"

subsection \<open>File operations\<close>

text \<open>\<^verbatim>\<open>open(p, 'rb').read()\<close>: the whole content of a regular file.\<close>

definition read_file :: "fs \<Rightarrow> path \<Rightarrow> error + bytes" where
  "read_file fs p =
     (case map_of fs p of
        None \<Rightarrow> Inl FileNotFoundError
      | Some (Dir n t) \<Rightarrow> Inl IsADirectoryError
      | Some (File bs t) \<Rightarrow> Inr bs)"

text \<open>
  Opening \<open>p\<close> for writing, writing \<open>data\<close> and closing; \<open>t\<close> is the modification time the
  file has afterwards. Opening creates the file or truncates it, so a failure during the
  write leaves the bytes written so far under the name \<open>p\<close>.
\<close>

definition write_file :: "env \<Rightarrow> fs \<Rightarrow> path \<Rightarrow> bytes \<Rightarrow> int \<Rightarrow> (error + unit) \<times> fs" where
  "write_file E fs p data t =
     (case map_of fs p of
        Some (Dir n t') \<Rightarrow> (Inl IsADirectoryError, fs)
      | _ \<Rightarrow>
        (case fault E p of
           Denied \<Rightarrow> (Inl PermissionError, fs)
         | FailsAfter k \<Rightarrow>
             if k < length data
             then (Inl OSError, AList.update p (File (take k data) (now E)) fs)
             else (Inr (), AList.update p (File data t) fs)
         | NoFault \<Rightarrow> (Inr (), AList.update p (File data t) fs)))"

text \<open>\<^verbatim>\<open>Path.unlink()\<close>.\<close>

definition unlink :: "env \<Rightarrow> fs \<Rightarrow> path \<Rightarrow> (error + unit) \<times> fs" where
  "unlink E fs p =
     (case map_of fs p of
        None \<Rightarrow> (Inl FileNotFoundError, fs)
      | Some (Dir n t) \<Rightarrow> (Inl IsADirectoryError, fs)
      | Some (File bs t) \<Rightarrow>
          (if fault E p = Denied then (Inl PermissionError, fs)
           else (Inr (), AList.delete p fs)))"

subsection \<open>pathlib's name, stem and suffix\<close>

definition path_name :: "path \<Rightarrow> string" where
  "path_name p = rev (takeWhile (\<lambda>c. c \<noteq> CHR ''/'') (rev p))"

text \<open>The text of \<open>p\<close> up to and with its last slash: \<^verbatim>\<open>str(p.parent / n)\<close> is this text and \<open>n\<close>.\<close>

definition path_dir :: "path \<Rightarrow> string" where
  "path_dir p = rev (dropWhile (\<lambda>c. c \<noteq> CHR ''/'') (rev p))"

definition rfind :: "string \<Rightarrow> char \<Rightarrow> int" where
  "rfind s c =
     (if c \<in> set s then int (length s) - 1 - int (length (takeWhile (\<lambda>x. x \<noteq> c) (rev s)))
      else - 1)"

definition path_suffix :: "string \<Rightarrow> string" where
  "path_suffix name =
     (let i = rfind name CHR ''.''
      in if 0 < i \<and> i < int (length name) - 1 then drop (nat i) name else [])"

definition path_stem :: "string \<Rightarrow> string" where
  "path_stem name =
     (let i = rfind name CHR ''.''
      in if 0 < i \<and> i < int (length name) - 1 then take (nat i) name else name)"

section \<open>The rotation engine\<close>

subsection \<open>\<^verbatim>\<open>should_rotate\<close> (lines 55-61)\<close>

text \<open>The function only reads, so it takes the file system and returns no new one.\<close>

definition should_rotate :: "LogRotator \<Rightarrow> fs \<Rightarrow> path \<Rightarrow> error + bool" where
  "should_rotate self fs filepath =
     (if \<not> path_exists fs filepath then Inr False
      else case stat fs filepath of
             Inl e \<Rightarrow> Inl e
           | Inr s \<Rightarrow>
               (let size_mb = rat_of_nat (st_size s) / (1024 * 1024)
                in Inr (size_mb \<ge> max_size_mb (policy self))))"

subsection \<open>\<^verbatim>\<open>rotate_file\<close> (lines 63-98)\<close>

text \<open>The class attribute \<^verbatim>\<open>COMPRESSORS\<close> (lines 45-49) and \<^verbatim>\<open>dict.get\<close> with a default.\<close>

definition COMPRESSORS :: "string \<rightharpoonup> string \<times> opener option" where
  "COMPRESSORS =
     [''gzip'' \<mapsto> (''.gz'', Some GzipOpen),
      ''bz2'' \<mapsto> (''.bz2'', Some Bz2Open),
      ''none'' \<mapsto> ('''', None)]"

definition dict_get :: "('k \<rightharpoonup> 'v) \<Rightarrow> 'k \<Rightarrow> 'v \<Rightarrow> 'v" where
  "dict_get d k dflt = (case d k of Some v \<Rightarrow> v | None \<Rightarrow> dflt)"

text \<open>Lines 70-72: the pair \<^verbatim>\<open>(ext_suffix, compressor)\<close> for the policy's backend name.\<close>

definition backend :: "LogRotator \<Rightarrow> string \<times> opener option" where
  "backend self = dict_get COMPRESSORS (compress (policy self)) (the (COMPRESSORS ''none''))"

text \<open>Lines 69-75: the destination path.\<close>

definition dest_path :: "env \<Rightarrow> LogRotator \<Rightarrow> path \<Rightarrow> path" where
  "dest_path E self filepath =
     (let stamp = strftime E (timestamp_format (policy self)) (now E);
          ext_suffix = fst (backend self);
          name = path_name filepath;
          dest_name = path_stem name @ ''.'' @ stamp @ path_suffix name @ ext_suffix
      in path_dir filepath @ dest_name)"

text \<open>
  \<^verbatim>\<open>shutil.copy2(src, dst)\<close>: when \<open>dst\<close> is an existing directory the copy goes into it
  under the base name of \<open>src\<close>; the copy keeps the modification time of \<open>src\<close>.
\<close>

definition copy2 :: "env \<Rightarrow> fs \<Rightarrow> path \<Rightarrow> path \<Rightarrow> (error + unit) \<times> fs" where
  "copy2 E fs src dst =
     (let target = (case map_of fs dst of
                      Some (Dir n t) \<Rightarrow> dst @ ''/'' @ path_name src
                    | _ \<Rightarrow> dst)
      in case map_of fs src of
           None \<Rightarrow> (Inl FileNotFoundError, fs)
         | Some (Dir n t) \<Rightarrow> (Inl IsADirectoryError, fs)
         | Some (File bs t) \<Rightarrow> write_file E fs target bs t)"

text \<open>
  Lines 83-90: the archive is written straight to its final name. The source is opened
  before the destination; as the two paths differ (lemma \<open>dest_path_neq\<close> below), reading
  the source as a whole before the destination is written gives the bytes that the
  streaming copy reads.
\<close>

definition write_archive ::
  "env \<Rightarrow> fs \<Rightarrow> path \<Rightarrow> path \<Rightarrow> opener option \<Rightarrow> (error + nat option) \<times> fs" where
  "write_archive E fs src dest compressor =
     (case compressor of
        Some opn \<Rightarrow>
          (case read_file fs src of
             Inl e \<Rightarrow> (Inl e, fs)
           | Inr data \<Rightarrow>
               (case write_file E fs dest (compressed E opn dest data) (now E) of
                  (Inl e, fs') \<Rightarrow> (Inl e, fs')
                | (Inr u, fs') \<Rightarrow>
                    (case stat fs' dest of
                       Inl e \<Rightarrow> (Inl e, fs')
                     | Inr s \<Rightarrow> (Inr (Some (st_size s)), fs'))))
      | None \<Rightarrow>
          (case copy2 E fs src dest of
             (Inl e, fs') \<Rightarrow> (Inl e, fs')
           | (Inr u, fs') \<Rightarrow> (Inr None, fs')))"

text \<open>
  The result is the returned value or the raised error, with the engine and the file
  system as the call leaves them. The notice printed in a dry run goes to standard
  output, which is not part of the state.
\<close>

definition rotate_file ::
  "env \<Rightarrow> LogRotator \<Rightarrow> fs \<Rightarrow> path \<Rightarrow> bool \<Rightarrow>
     (error + RotationResult option) \<times> LogRotator \<times> fs" where
  "rotate_file E self fs filepath dry_run =
     (if \<not> path_exists fs filepath then (Inr None, self, fs)
      else
        let compressor = snd (backend self);
            dest = dest_path E self filepath
        in case stat fs filepath of
             Inl e \<Rightarrow> (Inl e, self, fs)
           | Inr s \<Rightarrow>
               (let osize = st_size s in
                if dry_run then
                  (Inr (Some \<lparr>source = filepath, destination = dest,
                              original_size = osize, compressed_size = None,
                              timestamp = now E\<rparr>), self, fs)
                else
                  case write_archive E fs filepath dest compressor of
                    (Inl e, fs1) \<Rightarrow> (Inl e, self, fs1)
                  | (Inr csize, fs1) \<Rightarrow>
                      (case write_file E fs1 filepath [] (now E) of
                         (Inl e, fs2) \<Rightarrow> (Inl e, self, fs2)
                       | (Inr u, fs2) \<Rightarrow>
                           (let result = \<lparr>source = filepath, destination = dest,
                                          original_size = osize,
                                          compressed_size = csize,
                                          timestamp = now E\<rparr>
                            in (Inr (Some result),
                                self\<lparr>results := results self @ [result]\<rparr>, fs2)))))"

subsection \<open>\<^verbatim>\<open>rotate\<close> (lines 100-108)\<close>

text \<open>\<^verbatim>\<open>glob.glob(pattern)\<close>: the paths of the file system that match, each once.\<close>

definition glob :: "env \<Rightarrow> fs \<Rightarrow> string \<Rightarrow> path list" where
  "glob E fs pattern = filter (glob_match E pattern) (remdups (map fst fs))"

text \<open>
  The \<^verbatim>\<open>for\<close> loop over the sorted paths; \<open>acc\<close> is the local list \<^verbatim>\<open>results\<close>. A
  \<^verbatim>\<open>RotationResult\<close> is always truthy, so \<^verbatim>\<open>if result:\<close> tests for \<^verbatim>\<open>None\<close>. An
  exception leaves the loop and the function: the source has no handler.
\<close>

fun rotate_loop ::
  "env \<Rightarrow> bool \<Rightarrow> path list \<Rightarrow> LogRotator \<Rightarrow> fs \<Rightarrow> RotationResult list \<Rightarrow>
     (error + RotationResult list) \<times> LogRotator \<times> fs" where
  "rotate_loop E dry_run [] self fs acc = (Inr acc, self, fs)"
| "rotate_loop E dry_run (filepath # rest) self fs acc =
     (case should_rotate self fs filepath of
        Inl e \<Rightarrow> (Inl e, self, fs)
      | Inr b \<Rightarrow>
          if b then
            (case rotate_file E self fs filepath dry_run of
               (Inl e, self', fs') \<Rightarrow> (Inl e, self', fs')
             | (Inr None, self', fs') \<Rightarrow> rotate_loop E dry_run rest self' fs' acc
             | (Inr (Some result), self', fs') \<Rightarrow>
                 rotate_loop E dry_run rest self' fs' (acc @ [result]))
          else rotate_loop E dry_run rest self fs acc)"

definition rotate ::
  "env \<Rightarrow> LogRotator \<Rightarrow> fs \<Rightarrow> string \<Rightarrow> bool \<Rightarrow>
     (error + RotationResult list) \<times> LogRotator \<times> fs" where
  "rotate E self fs pattern dry_run =
     rotate_loop E dry_run (sort (glob E fs pattern)) self fs []"

subsection \<open>\<^verbatim>\<open>cleanup_old\<close> (lines 110-126)\<close>

text \<open>
  \<^verbatim>\<open>Path(directory) / name\<close> as a string, and \<^verbatim>\<open>Path(directory).glob('*' + ext)\<close>: the
  immediate children of the directory whose name ends with \<open>ext\<close> (pathlib's \<^verbatim>\<open>*\<close> also
  matches a leading dot and the empty string).
\<close>

definition path_join :: "path \<Rightarrow> string \<Rightarrow> path" where
  "path_join d n = (if d = ''.'' then n else if d = ''/'' then ''/'' @ n else d @ ''/'' @ n)"

definition child_glob :: "fs \<Rightarrow> path \<Rightarrow> string \<Rightarrow> path list" where
  "child_glob fs directory ext =
     filter (\<lambda>p. path_name p \<noteq> [] \<and> p = path_join directory (path_name p)
                 \<and> suffix ext (path_name p))
       (remdups (map fst fs))"

text \<open>
  The inner loop, lines 117-124, over the paths the glob yielded. Modification times and
  the cutoff are instants in microseconds; time zones are left out.
\<close>

fun cleanup_loop ::
  "env \<Rightarrow> bool \<Rightarrow> int \<Rightarrow> path list \<Rightarrow> fs \<Rightarrow> nat \<Rightarrow> (error + nat) \<times> fs" where
  "cleanup_loop E dry_run cutoff [] fs removed = (Inr removed, fs)"
| "cleanup_loop E dry_run cutoff (p # rest) fs removed =
     (case stat fs p of
        Inl e \<Rightarrow> (Inl e, fs)
      | Inr s \<Rightarrow>
          if st_mtime s < cutoff then
            (if dry_run then cleanup_loop E dry_run cutoff rest fs (removed + 1)
             else
               case unlink E fs p of
                 (Inl e, fs') \<Rightarrow> (Inl e, fs')
               | (Inr u, fs') \<Rightarrow> cleanup_loop E dry_run cutoff rest fs' (removed + 1))
          else cleanup_loop E dry_run cutoff rest fs removed)"

text \<open>The outer loop, line 116; each glob is evaluated when its loop starts.\<close>

fun cleanup_exts ::
  "env \<Rightarrow> bool \<Rightarrow> int \<Rightarrow> path \<Rightarrow> string list \<Rightarrow> fs \<Rightarrow> nat \<Rightarrow> (error + nat) \<times> fs" where
  "cleanup_exts E dry_run cutoff directory [] fs removed = (Inr removed, fs)"
| "cleanup_exts E dry_run cutoff directory (ext # exts) fs removed =
     (case cleanup_loop E dry_run cutoff (child_glob fs directory ext) fs removed of
        (Inl e, fs') \<Rightarrow> (Inl e, fs')
      | (Inr removed', fs') \<Rightarrow> cleanup_exts E dry_run cutoff directory exts fs' removed')"

definition cutoff_of :: "env \<Rightarrow> LogRotator \<Rightarrow> int" where
  "cutoff_of E self = now E - max_age_days (policy self) * 86400000000"

definition cleanup_old ::
  "env \<Rightarrow> LogRotator \<Rightarrow> fs \<Rightarrow> path \<Rightarrow> bool \<Rightarrow> (error + nat) \<times> fs" where
  "cleanup_old E self fs directory dry_run =
     cleanup_exts E dry_run (cutoff_of E self) directory [''.gz'', ''.bz2''] fs 0"

subsection \<open>\<^verbatim>\<open>summary\<close> (lines 128-140)\<close>

text \<open>Python's \<^verbatim>\<open>a or b\<close> on an optional size: \<^verbatim>\<open>None\<close> and \<^verbatim>\<open>0\<close> are both falsy.\<close>

definition py_or :: "nat option \<Rightarrow> nat \<Rightarrow> nat" where
  "py_or a b = (case a of None \<Rightarrow> b | Some n \<Rightarrow> if n = 0 then b else n)"

definition total_original :: "LogRotator \<Rightarrow> nat" where
  "total_original self = sum_list (map original_size (results self))"

definition total_compressed :: "LogRotator \<Rightarrow> nat" where
  "total_compressed self =
     sum_list (map (\<lambda>r. py_or (compressed_size r) (original_size r)) (results self))"

text \<open>
  Line 132. The source computes in floating point; the model computes the exact value.
\<close>

definition ratio :: "LogRotator \<Rightarrow> rat" where
  "ratio self =
     (if total_original self > 0
      then (1 - rat_of_nat (total_compressed self) / rat_of_nat (total_original self)) * 100
      else 0)"

text \<open>\<^verbatim>\<open>str(n)\<close> for a natural number.\<close>

fun dec :: "nat \<Rightarrow> string" where
  "dec n =
     (if n < 10 then [''0123456789'' ! n]
      else dec (n div 10) @ [''0123456789'' ! (n mod 10)])"

text \<open>
  The format specification \<^verbatim>\<open>.df\<close>: sign, integer part, and \<open>d\<close> decimals, rounded half to
  even.
\<close>

definition round_half_even :: "rat \<Rightarrow> nat" where
  "round_half_even x =
     (let f = nat \<lfloor>x\<rfloor>; r = x - rat_of_nat f
      in if r < 1 / 2 then f else if 1 / 2 < r then f + 1 else if even f then f else f + 1)"

definition format_f :: "nat \<Rightarrow> rat \<Rightarrow> string" where
  "format_f d x =
     (let m = round_half_even (\<bar>x\<bar> * 10 ^ d);
          frac = dec (m mod 10 ^ d)
      in (if x < 0 then ''-'' else '''') @ dec (m div 10 ^ d) @
         (if d = 0 then '''' else ''.'' @ replicate (d - length frac) CHR ''0'' @ frac))"

fun str_join :: "string \<Rightarrow> string list \<Rightarrow> string" where
  "str_join sep [] = []"
| "str_join sep [x] = x"
| "str_join sep (x # y # ys) = x @ sep @ str_join sep (y # ys)"

definition summary :: "LogRotator \<Rightarrow> string" where
  "summary self =
     (let lines =
        [''Rotated '' @ dec (length (results self)) @ '' file(s)'',
         ''Original total: '' @ format_f 2 (rat_of_nat (total_original self) / 1024 / 1024) @ '' MB'',
         ''Compressed total: '' @ format_f 2 (rat_of_nat (total_compressed self) / 1024 / 1024) @ '' MB'',
         ''Space saved: '' @ format_f 1 (ratio self) @ ''%'']
      in str_join [CHR 0x0A] lines)"

subsection \<open>Clients of the engine\<close>

text \<open>
  The history \<^verbatim>\<open>self.results\<close> is written by \<^verbatim>\<open>rotate_file\<close> alone, called directly or
  through \<^verbatim>\<open>rotate\<close>. A client makes any sequence of such calls, each in its own
  environment and on the file system as it is then; an exception ends the call, not the
  engine.
\<close>

datatype call = RotateFile env fs path bool | Rotate env fs string bool

fun do_call :: "call \<Rightarrow> LogRotator \<Rightarrow> LogRotator" where
  "do_call (RotateFile E fs filepath dry_run) self = fst (snd (rotate_file E self fs filepath dry_run))"
| "do_call (Rotate E fs pattern dry_run) self = fst (snd (rotate E self fs pattern dry_run))"

fun run :: "call list \<Rightarrow> LogRotator \<Rightarrow> LogRotator" where
  "run [] self = self"
| "run (c # cs) self = run cs (do_call c self)"

subsection \<open>The specification's summary\<close>



section \<open>A concrete scenario\<close>

text \<open>
  Three log files in the working directory, a threshold of four bytes, a clock that reads
  1000 and stamps every name with \<open>T\<close>, the pattern matching as \<^verbatim>\<open>*.log\<close> does, compressors
  that store their input after the magic bytes, and a storage without faults.
\<close>

definition env0 :: env where
  "env0 = \<lparr>now = 1000, strftime = (\<lambda>fmt t. ''T''), glob_match = (\<lambda>pat p. suffix ''.log'' p),
            encode = (\<lambda>opn d bs. bs), fault = (\<lambda>p. NoFault)\<rparr>"

definition policy0 :: RotationPolicy where
  "policy0 = RotationPolicy_default\<lparr>max_size_mb := 1 / 262144\<rparr>"

definition fs0 :: fs where
  "fs0 = [(''a.log'', File ''hello world'' 5), (''b.log'', File ''0123456789'' 6),
          (''c.log'', File ''hi'' 7)]"


text \<open>The same storage, full after four bytes of the archive of \<^verbatim>\<open>a.log\<close>.\<close>

definition env_full :: env where
  "env_full = env0\<lparr>fault := (\<lambda>p. if p = ''a.T.log.gz'' then FailsAfter 4 else NoFault)\<rparr>"

text \<open>
  The same storage, refusing the archive of \<^verbatim>\<open>a.log\<close>; and the files without \<^verbatim>\<open>b.log\<close>.
\<close>

definition env_denied :: env where
  "env_denied = env0\<lparr>fault := (\<lambda>p. if p = ''a.T.log.gz'' then Denied else NoFault)\<rparr>"


text \<open>A policy that names a backend the table does not have.\<close>

definition policy_zip :: RotationPolicy where
  "policy_zip = policy0\<lparr>compress := ''zip''\<rparr>"

subsection \<open>The specification's retention rule\<close>

text \<open>
  An archive of a directory is an immediate child whose name ends with a compression
  suffix; it has expired when it exists and its modification time is strictly before now
  minus the maximum age.
\<close>

definition older :: "int \<Rightarrow> fs \<Rightarrow> path \<Rightarrow> bool" where
  "older c fs p = (case map_of fs p of None \<Rightarrow> False | Some n \<Rightarrow> st_mtime n < c)"

definition child_with :: "path \<Rightarrow> string \<Rightarrow> path \<Rightarrow> bool" where
  "child_with directory ext p =
     (path_name p \<noteq> [] \<and> p = path_join directory (path_name p) \<and> suffix ext (path_name p))"

definition expired :: "env \<Rightarrow> LogRotator \<Rightarrow> fs \<Rightarrow> path \<Rightarrow> path \<Rightarrow> bool" where
  "expired E self fs directory p =
     ((child_with directory ''.gz'' p \<or> child_with directory ''.bz2'' p)
      \<and> older (now E - max_age_days (policy self) * 86400000000) fs p)"


subsection \<open>An invariant of the history\<close>


section \<open>Paths and file operations\<close>

lemma path_dir_name: "path_dir p @ path_name p = p"
  unfolding path_dir_def path_name_def
  by (metis rev_append rev_rev_ident takeWhile_dropWhile_id)

lemma path_stem_suffix: "path_stem n @ path_suffix n = n"
  by (simp add: path_stem_def path_suffix_def Let_def)

lemma dest_path_length: "length p < length (dest_path E self p)"
proof -
  have "length p = length (path_dir p) + length (path_stem (path_name p))
                     + length (path_suffix (path_name p))"
    by (metis path_dir_name path_stem_suffix length_append add.assoc)
  then show ?thesis by (simp add: dest_path_def Let_def)
qed

text \<open>The archive never has the name of its source.\<close>

lemma dest_path_neq: "dest_path E self p \<noteq> p"
  using dest_path_length [of p E self] by auto

lemma dest_sub_neq: "dest_path E self p @ ''/'' @ path_name p \<noteq> p"
  using dest_path_length [of p E self]
  by (metis length_append trans_less_add1 less_irrefl)

lemma write_file_other:
  "write_file E fs p data t = (r, fs') \<Longrightarrow> q \<noteq> p \<Longrightarrow> map_of fs' q = map_of fs q"
  by (auto simp: write_file_def update_conv'
      split: option.splits node.splits fault.splits if_splits)


lemma write_file_fail:
  "write_file E fs p data t = (Inl e, fs') \<Longrightarrow>
     fs' = fs \<or> (\<exists>k < length data. map_of fs' = (map_of fs)(p \<mapsto> File (take k data) (now E)))"
  by (auto simp: write_file_def update_conv'
      split: option.splits node.splits fault.splits if_splits)

lemma write_file_trunc_fail:
  "write_file E fs p [] t = (Inl e, fs') \<Longrightarrow> fs' = fs"
  using write_file_fail [of E fs p "[]" t e fs'] by simp


lemma write_archive_other:
  assumes "write_archive E fs src dest c = (r, fs')"
    and "q \<noteq> dest" and "q \<noteq> dest @ ''/'' @ path_name src"
  shows "map_of fs' q = map_of fs q"
proof (cases c)
  case None
  then show ?thesis
    using assms
    by (auto simp: write_archive_def copy2_def Let_def
        split: option.splits node.splits sum.splits prod.splits dest: write_file_other)
next
  case (Some opn)
  then show ?thesis
    using assms
    by (auto simp: write_archive_def read_file_def
        split: option.splits node.splits sum.splits prod.splits dest: write_file_other)
qed



section \<open>One rotation\<close>

lemma rotate_file_dry:
  "rotate_file E self fs p True =
     (case map_of fs p of
        None \<Rightarrow> (Inr None, self, fs)
      | Some n \<Rightarrow>
          (Inr (Some \<lparr>source = p, destination = dest_path E self p, original_size = st_size n,
                      compressed_size = None, timestamp = now E\<rparr>), self, fs))"
  by (simp add: rotate_file_def path_exists_def stat_def Let_def split: option.splits)

text \<open>A call that raises has left its source and the history alone.\<close>

lemma rotate_file_raise:
  assumes "rotate_file E self fs p False = (Inl e, self', fs')"
  shows "map_of fs' p = map_of fs p \<and> self' = self"
proof -
  obtain r1 fs1
    where a: "write_archive E fs p (dest_path E self p) (snd (backend self)) = (r1, fs1)"
    by (cases "write_archive E fs p (dest_path E self p) (snd (backend self))") auto
  have keep: "map_of fs1 p = map_of fs p"
    using write_archive_other [OF a, of p] dest_path_neq [of E self p] dest_sub_neq [of E self p]
    by auto
  show ?thesis
    using assms a keep
    by (auto simp: rotate_file_def path_exists_def stat_def Let_def
        split: option.splits sum.splits prod.splits if_splits dest!: write_file_trunc_fail)
qed



text \<open>The engine after a call, and the paths a call can touch.\<close>

lemma rotate_file_self:
  "rotate_file E self fs p False = (x, self', fs') \<Longrightarrow>
     self' = (case x of Inr (Some r) \<Rightarrow> self\<lparr>results := results self @ [r]\<rparr> | _ \<Rightarrow> self)"
  by (auto simp: rotate_file_def Let_def split: if_splits sum.splits prod.splits option.splits)

lemma rotate_file_frame:
  assumes "rotate_file E self fs p dry = (x, self', fs')"
    and "q \<noteq> p" and "q \<noteq> dest_path E self p"
    and "q \<noteq> dest_path E self p @ ''/'' @ path_name p"
  shows "map_of fs' q = map_of fs q"
proof -
  obtain r1 fs1
    where a: "write_archive E fs p (dest_path E self p) (snd (backend self)) = (r1, fs1)"
    by (cases "write_archive E fs p (dest_path E self p) (snd (backend self))") auto
  have keep: "map_of fs1 q = map_of fs q"
    using write_archive_other [OF a, of q] assms by auto
  show ?thesis
    using assms(1,2) a keep
    by (auto simp: rotate_file_def Let_def
        split: option.splits sum.splits prod.splits if_splits dest: write_file_other)
qed

lemma backend0: "backend (LogRotator_init (Some policy0)) = (''.gz'', Some GzipOpen)"
  by (simp add: LogRotator_init_def policy0_def RotationPolicy_default_def
      backend_def dict_get_def COMPRESSORS_def)

lemma dest0_full: "dest_path env_full (LogRotator_init (Some policy0)) ''a.log'' = ''a.T.log.gz''"
  by (simp add: dest_path_def env_full_def env0_def LogRotator_init_def policy0_def
      RotationPolicy_default_def backend_def dict_get_def COMPRESSORS_def path_name_def
      path_stem_def path_suffix_def path_dir_def rfind_def)

lemma dest0: "dest_path env0 (LogRotator_init (Some policy0)) ''a.log'' = ''a.T.log.gz''"
  by (simp add: dest_path_def env0_def LogRotator_init_def policy0_def RotationPolicy_default_def
      backend_def dict_get_def COMPRESSORS_def path_name_def path_stem_def path_suffix_def
      path_dir_def rfind_def)



section \<open>The size test\<close>



section \<open>Failure of the archive write\<close>

text \<open>
  Claim C3, as the specification states it, fails in its second half: the archive is
  written straight to its final name, so when the storage is full after four bytes the
  call raises and leaves those four bytes under the destination name, where no file was
  before.
\<close>

theorem partial_archive_counterexample:
  "rotate_file env_full (LogRotator_init (Some policy0)) fs0 ''a.log'' False
     = (Inl OSError, LogRotator_init (Some policy0),
        fs0 @ [(''a.T.log.gz'', File [CHR 0x1F, CHR 0x8B, CHR ''h'', CHR ''e''] 1000)])
   \<and> map_of fs0 ''a.T.log.gz'' = None"
  apply (simp add: rotate_file_def dest0_full backend0 Let_def)
  apply (simp add: fs0_def path_exists_def stat_def write_archive_def read_file_def
      write_file_def compressed_def env_full_def env0_def)
  done

text \<open>
  Claim C3, amended. When a live \<^verbatim>\<open>rotate_file\<close> call raises, the source file is as it
  was before the call (in particular not truncated), the history is unchanged, and no
  path other than the archive's has changed (the destination, or the entry under it when
  the destination is a directory); the destination name may hold a partly written
  archive.
\<close>

theorem rotate_file_raise_keeps_source:
  assumes "rotate_file E self fs p False = (Inl e, self', fs')"
  shows "map_of fs' p = map_of fs p \<and> self' = self
    \<and> (\<forall>q. q \<noteq> dest_path E self p \<and> q \<noteq> dest_path E self p @ ''/'' @ path_name p
          \<longrightarrow> map_of fs' q = map_of fs q)"
  using rotate_file_raise [OF assms] rotate_file_frame [OF assms]
  by metis

theorem rotate_file_raise_keeps_source_witness:
  "rotate_file env_full (LogRotator_init (Some policy0)) fs0 ''a.log'' False
     = (Inl OSError, LogRotator_init (Some policy0),
        fs0 @ [(''a.T.log.gz'', File [CHR 0x1F, CHR 0x8B, CHR ''h'', CHR ''e''] 1000)])
   \<and> map_of (fs0 @ [(''a.T.log.gz'', File [CHR 0x1F, CHR 0x8B, CHR ''h'', CHR ''e''] 1000)])
         ''a.log''
       = Some (File ''hello world'' 5)"
proof -
  have run: "rotate_file env_full (LogRotator_init (Some policy0)) fs0 ''a.log'' False
     = (Inl OSError, LogRotator_init (Some policy0),
        fs0 @ [(''a.T.log.gz'', File [CHR 0x1F, CHR 0x8B, CHR ''h'', CHR ''e''] 1000)])"
    apply (simp add: rotate_file_def dest0_full backend0 Let_def)
    apply (simp add: fs0_def path_exists_def stat_def write_archive_def read_file_def
        write_file_def compressed_def env_full_def env0_def)
    done
  have "map_of fs0 ''a.log'' = Some (File ''hello world'' 5)"
    by (simp add: fs0_def)
  with run rotate_file_raise_keeps_source [OF run] show ?thesis by simp
qed

section \<open>Dry runs and the history\<close>

text \<open>
  Claim C10. A dry-run \<^verbatim>\<open>rotate_file\<close> call leaves the engine, and so its history and
  its summary, as they were, although it returns a result for an existing path; a live
  call appends its result to the history when it returns one, and leaves the history
  alone when it returns nothing or raises.
\<close>

theorem dry_run_keeps_history:
  "fst (snd (rotate_file E self fs p True)) = self
   \<and> summary (fst (snd (rotate_file E self fs p True))) = summary self
   \<and> (case map_of fs p of
        Some n \<Rightarrow> \<exists>r. fst (rotate_file E self fs p True) = Inr (Some r)
      | None \<Rightarrow> fst (rotate_file E self fs p True) = Inr None)
   \<and> results (fst (snd (rotate_file E self fs p False))) =
       (case fst (rotate_file E self fs p False) of
          Inr (Some r) \<Rightarrow> results self @ [r]
        | _ \<Rightarrow> results self)"
proof -
  obtain x self' fs' where live: "rotate_file E self fs p False = (x, self', fs')"
    by (cases "rotate_file E self fs p False") auto
  have "results self' = (case x of Inr (Some r) \<Rightarrow> results self @ [r] | _ \<Rightarrow> results self)"
    using rotate_file_self [OF live] by (auto split: sum.splits option.splits)
  then show ?thesis
    using live by (simp add: rotate_file_dry split: option.splits)
qed

section \<open>The batch loop\<close>

lemma should_rotate_eq:
  "should_rotate self fs p =
     Inr (case map_of fs p of
            None \<Rightarrow> False
          | Some n \<Rightarrow> max_size_mb (policy self) * (1024 * 1024) \<le> rat_of_nat (st_size n))"
  by (simp add: should_rotate_def path_exists_def stat_def field_simps split: option.splits)




lemma rotate_file_result:
  "rotate_file E self fs p dry = (Inr (Some r), self', fs') \<Longrightarrow>
     source r = p \<and> destination r = dest_path E self p
     \<and> (\<exists>n. map_of fs p = Some n \<and> original_size r = st_size n)
     \<and> self' = (if dry then self else self\<lparr>results := results self @ [r]\<rparr>)"
  by (auto simp: rotate_file_def Let_def path_exists_def stat_def
      split: if_splits sum.splits prod.splits option.splits)





lemma rotate_loop_dry:
  "\<exists>rs. rotate_loop E True ps self fs acc = (Inr rs, self, fs)"
proof (induction ps arbitrary: acc)
  case Nil
  then show ?case by simp
next
  case (Cons p ps)
  then show ?case
    by (cases "map_of fs p") (auto simp: should_rotate_eq rotate_file_dry)
qed

lemma rotate_loop_append:
  "rotate_loop E dry (ps1 @ ps2) self fs acc =
     (case rotate_loop E dry ps1 self fs acc of
        (Inl e, self1, fs1) \<Rightarrow> (Inl e, self1, fs1)
      | (Inr acc1, self1, fs1) \<Rightarrow> rotate_loop E dry ps2 self1 fs1 acc1)"
  by (induction ps1 arbitrary: self fs acc)
    (auto split: sum.splits prod.splits option.splits)

lemma sorted_glob: "sorted (sort (glob E fs pat)) \<and> distinct (sort (glob E fs pat))
   \<and> set (sort (glob E fs pat)) = {p \<in> dom (map_of fs). glob_match E pat p}"
  by (auto simp: glob_def dom_map_of_conv_image_fst)



lemma glob0_denied: "sort (glob env_denied fs0 pat) = [''a.log'', ''b.log'', ''c.log'']"
  by (simp add: glob_def env_denied_def env0_def fs0_def suffix_to_prefix)

lemma dest0_denied:
  "dest_path env_denied (LogRotator_init (Some policy0)) ''a.log'' = ''a.T.log.gz''"
  by (simp add: dest_path_def env_denied_def env0_def LogRotator_init_def policy0_def
      RotationPolicy_default_def backend_def dict_get_def COMPRESSORS_def path_name_def
      path_stem_def path_suffix_def path_dir_def rfind_def)

lemma destb_denied:
  "dest_path env_denied (LogRotator_init (Some policy0)) ''b.log'' = ''b.T.log.gz''"
  by (simp add: dest_path_def env_denied_def env0_def LogRotator_init_def policy0_def
      RotationPolicy_default_def backend_def dict_get_def COMPRESSORS_def path_name_def
      path_stem_def path_suffix_def path_dir_def rfind_def)

lemma due0:
  "should_rotate (LogRotator_init (Some policy0)) fs0 ''a.log'' = Inr True
   \<and> should_rotate (LogRotator_init (Some policy0)) fs0 ''b.log'' = Inr True
   \<and> should_rotate (LogRotator_init (Some policy0)) fs0 ''c.log'' = Inr False"
  by (simp add: should_rotate_eq fs0_def LogRotator_init_def policy0_def RotationPolicy_default_def)

lemma a_denied:
  "rotate_file env_denied (LogRotator_init (Some policy0)) fs0 ''a.log'' False
     = (Inl PermissionError, LogRotator_init (Some policy0), fs0)"
  apply (simp add: rotate_file_def dest0_denied backend0 Let_def)
  apply (simp add: fs0_def path_exists_def stat_def write_archive_def read_file_def
      write_file_def compressed_def env_denied_def env0_def)
  done

section \<open>Failure inside a batch\<close>

text \<open>
  Claim C4, as the specification states it, fails: \<^verbatim>\<open>rotate\<close> has no handler, so the
  error of one file ends the batch. Here the archive of \<^verbatim>\<open>a.log\<close> cannot be opened; the
  call raises and \<^verbatim>\<open>b.log\<close>, which is due and whose own rotation succeeds, is left as it
  was.
\<close>

theorem batch_aborts_counterexample:
  "rotate env_denied (LogRotator_init (Some policy0)) fs0 ''*.log'' False
     = (Inl PermissionError, LogRotator_init (Some policy0), fs0)
   \<and> should_rotate (LogRotator_init (Some policy0)) fs0 ''b.log'' = Inr True
   \<and> fst (rotate_file env_denied (LogRotator_init (Some policy0)) fs0 ''b.log'' False)
       = Inr (Some \<lparr>source = ''b.log'', destination = ''b.T.log.gz'', original_size = 10,
                    compressed_size = Some 12, timestamp = 1000\<rparr>)"
proof -
  have "rotate env_denied (LogRotator_init (Some policy0)) fs0 ''*.log'' False
     = (Inl PermissionError, LogRotator_init (Some policy0), fs0)"
    by (simp add: rotate_def glob0_denied due0 a_denied)
  moreover have "fst (rotate_file env_denied (LogRotator_init (Some policy0)) fs0 ''b.log'' False)
       = Inr (Some \<lparr>source = ''b.log'', destination = ''b.T.log.gz'', original_size = 10,
                    compressed_size = Some 12, timestamp = 1000\<rparr>)"
    apply (simp add: rotate_file_def destb_denied backend0 Let_def)
    apply (simp add: fs0_def path_exists_def stat_def write_archive_def read_file_def
      write_file_def compressed_def env_denied_def env0_def Let_def)
    done
  ultimately show ?thesis by (simp add: due0)
qed

text \<open>
  Claim C4, amended. When the rotation of one file of a batch raises, \<^verbatim>\<open>rotate\<close> raises
  that error to its caller and stops there: the files before it in the sorted order stay
  rotated, the failing file's source is untouched, and the files after it are neither
  examined nor rotated (each is as the failing call left it, and that call changes no
  path but its archive's). No result list is returned.
\<close>

theorem rotate_stops_at_failure:
  assumes split: "sort (glob E fs pat) = ps1 @ p # ps2"
    and before: "rotate_loop E False ps1 self fs [] = (Inr acc, self1, fs1)"
    and due: "should_rotate self1 fs1 p = Inr True"
    and fails: "rotate_file E self1 fs1 p False = (Inl e, self2, fs2)"
  shows "rotate E self fs pat False = (Inl e, self1, fs2)
       \<and> map_of fs2 p = map_of fs1 p
       \<and> (\<forall>q\<in>set ps2. q \<noteq> dest_path E self1 p
             \<and> q \<noteq> dest_path E self1 p @ ''/'' @ path_name p
             \<longrightarrow> map_of fs2 q = map_of fs1 q)"
proof -
  have "self2 = self1" "map_of fs2 p = map_of fs1 p"
    using rotate_file_raise [OF fails] by auto
  moreover have "rotate E self fs pat False = (Inl e, self2, fs2)"
    by (simp add: rotate_def split rotate_loop_append before due fails)
  moreover have "\<forall>q\<in>set ps2. q \<noteq> dest_path E self1 p
             \<and> q \<noteq> dest_path E self1 p @ ''/'' @ path_name p
             \<longrightarrow> map_of fs2 q = map_of fs1 q"
  proof (intro ballI impI)
    fix q assume q: "q \<in> set ps2" and d: "q \<noteq> dest_path E self1 p
             \<and> q \<noteq> dest_path E self1 p @ ''/'' @ path_name p"
    have "distinct (ps1 @ p # ps2)"
      using sorted_glob [of E fs pat] split by simp
    with q have "q \<noteq> p" by auto
    with d show "map_of fs2 q = map_of fs1 q"
      using rotate_file_frame [OF fails] by blast
  qed
  ultimately show ?thesis by simp
qed

theorem rotate_stops_at_failure_witness:
  "rotate env_denied (LogRotator_init (Some policy0)) fs0 ''*.log'' False
     = (Inl PermissionError, LogRotator_init (Some policy0), fs0)
   \<and> map_of fs0 ''b.log'' = Some (File ''0123456789'' 6)"
  using rotate_stops_at_failure [of env_denied fs0 "''*.log''" "[]" "''a.log''"
      "[''b.log'', ''c.log'']" "LogRotator_init (Some policy0)" "[]"
      "LogRotator_init (Some policy0)" fs0 PermissionError "LogRotator_init (Some policy0)" fs0]
  by (simp add: glob0_denied due0 a_denied) (simp add: fs0_def)

section \<open>The order of a batch\<close>




section \<open>The choice of the backend\<close>

lemma backend_cases:
  "backend self =
     (if compress (policy self) = ''gzip'' then (''.gz'', Some GzipOpen)
      else if compress (policy self) = ''bz2'' then (''.bz2'', Some Bz2Open)
      else ('''', None))"
  by (simp add: backend_def dict_get_def COMPRESSORS_def)

lemma dest_zip: "dest_path env0 (LogRotator_init (Some policy_zip)) ''a.log'' = ''a.T.log''"
  by (simp add: dest_path_def env0_def LogRotator_init_def policy0_def policy_zip_def
      RotationPolicy_default_def backend_def dict_get_def COMPRESSORS_def path_name_def
      path_stem_def path_suffix_def path_dir_def rfind_def)

text \<open>
  Claim C5, as the specification states it, fails: constructing a policy with the backend
  name \<^verbatim>\<open>zip\<close> raises nothing, and the engine rotates with it as with \<^verbatim>\<open>none\<close>: the archive
  has no suffix and is a copy of the source.
\<close>

theorem unknown_backend_counterexample:
  "RotationPolicy_init (1 / 262144) 30 ''zip'' ''%Y%m%d_%H%M%S'' 10 = Inr policy_zip
   \<and> rotate_file env0 (LogRotator_init (Some policy_zip)) fs0 ''a.log'' False
     = (Inr (Some \<lparr>source = ''a.log'', destination = ''a.T.log'', original_size = 11,
                   compressed_size = None, timestamp = 1000\<rparr>),
        \<lparr>policy = policy_zip,
          results = [\<lparr>source = ''a.log'', destination = ''a.T.log'', original_size = 11,
                      compressed_size = None, timestamp = 1000\<rparr>]\<rparr>,
        [(''a.log'', File [] 1000), (''b.log'', File ''0123456789'' 6),
         (''c.log'', File ''hi'' 7), (''a.T.log'', File ''hello world'' 5)])"
  apply (rule conjI)
   apply (simp add: RotationPolicy_init_def policy_zip_def policy0_def RotationPolicy_default_def)
  apply (simp add: rotate_file_def dest_zip backend_cases Let_def)
  apply (simp add: fs0_def path_exists_def stat_def write_archive_def copy2_def
      write_file_def env0_def Let_def LogRotator_init_def policy0_def policy_zip_def
      RotationPolicy_default_def)
  done

text \<open>
  Claim C5, amended. Constructing a policy accepts every backend name and keeps it. The
  engine uses gzip for the name \<^verbatim>\<open>gzip\<close>, bzip2 for \<^verbatim>\<open>bz2\<close>, and the identity backend (no
  suffix, no compressor) for every other name, \<^verbatim>\<open>none\<close> or unknown; a policy built without
  a name has the name \<^verbatim>\<open>gzip\<close>.
\<close>

theorem backend_selection:
  "(\<exists>pol. RotationPolicy_init m a c f b = Inr pol \<and> compress pol = c)
   \<and> backend self =
     (if compress (policy self) = ''gzip'' then (''.gz'', Some GzipOpen)
      else if compress (policy self) = ''bz2'' then (''.bz2'', Some Bz2Open)
      else ('''', None))
   \<and> compress (policy (LogRotator_init None)) = ''gzip''"
  by (simp add: RotationPolicy_init_def backend_cases LogRotator_init_def
      RotationPolicy_default_def)

section \<open>The retention sweep\<close>


lemma cleanup_loop_dry:
  "set ps \<subseteq> dom (map_of fs) \<Longrightarrow>
     cleanup_loop E True c ps fs n = (Inr (n + length (filter (older c fs) ps)), fs)"
  by (induction ps arbitrary: n) (auto simp: stat_def older_def split: option.splits)



lemma child_glob_set:
  "distinct (child_glob fs d ext)
   \<and> set (child_glob fs d ext) = {p \<in> dom (map_of fs). child_with d ext p}"
  by (auto simp: child_glob_def child_with_def dom_map_of_conv_image_fst)

lemma suffix_last: "suffix xs ys \<Longrightarrow> xs \<noteq> [] \<Longrightarrow> last ys = last xs"
  by (auto simp: suffix_def)

lemma gz_not_bz2: "child_with d ''.gz'' p \<Longrightarrow> \<not> child_with d ''.bz2'' p"
  by (auto simp: child_with_def dest!: suffix_last)

lemma older_dom: "older c fs p \<Longrightarrow> p \<in> dom (map_of fs)"
  by (auto simp: older_def split: option.splits)

lemma count_filter: "distinct xs \<Longrightarrow> length (filter P xs) = card {q \<in> set xs. P q}"
  by (simp add: distinct_length_filter Int_def conj_commute)

lemma expired_split:
  "{p. expired E self fs d p}
     = {q \<in> set (child_glob fs d ''.gz''). older (cutoff_of E self) fs q}
       \<union> {q \<in> {q \<in> dom (map_of fs). child_with d ''.bz2'' q}. older (cutoff_of E self) fs q}"
  by (auto simp: expired_def cutoff_of_def child_glob_set dest: older_dom)

lemma card_expired:
  "card {p. expired E self fs d p}
     = length (filter (older (cutoff_of E self) fs) (child_glob fs d ''.gz''))
       + card {q \<in> {q \<in> dom (map_of fs). child_with d ''.bz2'' q}. older (cutoff_of E self) fs q}"
proof -
  let ?A = "{q \<in> set (child_glob fs d ''.gz''). older (cutoff_of E self) fs q}"
  let ?B = "{q \<in> {q \<in> dom (map_of fs). child_with d ''.bz2'' q}. older (cutoff_of E self) fs q}"
  have "finite ?A" by simp
  moreover have "finite ?B" by (simp add: finite_dom_map_of)
  moreover have "?A \<inter> ?B = {}"
    by (auto simp: child_glob_set dest: gz_not_bz2)
  ultimately have "card (?A \<union> ?B) = card ?A + card ?B"
    by (rule card_Un_disjoint)
  then show ?thesis
    by (simp add: expired_split count_filter child_glob_set)
qed


lemma cleanup_old_dry:
  "cleanup_old E self fs d True = (Inr (card {p. expired E self fs d p}), fs)"
proof -
  have "set (child_glob fs d ext) \<subseteq> dom (map_of fs)" for ext
    by (auto simp: child_glob_set)
  then show ?thesis
    by (simp add: cleanup_old_def cleanup_loop_dry card_expired count_filter child_glob_set)
qed






section \<open>Dry runs and the file system\<close>

lemma rotate_file_none_iff:
  "fst (rotate_file E self fs p dry) = Inr None \<longleftrightarrow> map_of fs p = None"
  by (auto simp: rotate_file_def Let_def path_exists_def stat_def
      split: if_splits sum.splits prod.splits option.splits)

text \<open>
  Claim C9. Dry-run calls of \<^verbatim>\<open>rotate_file\<close>, \<^verbatim>\<open>cleanup_old\<close> and \<^verbatim>\<open>rotate\<close> return the
  file system they were given: no file changes its content, size, existence or
  modification time. A dry-run \<^verbatim>\<open>rotate_file\<close> on an existing path returns the result of
  the would-be move, with the source, the computed destination, the current size and no
  compressed size; these are the source, destination and original size of the result of
  a live call that succeeds, and the two modes return nothing for the same paths.
\<close>

theorem dry_run_changes_nothing:
  "snd (snd (rotate_file E self fs p True)) = fs
   \<and> snd (cleanup_old E self fs d True) = fs
   \<and> snd (snd (rotate E self fs pat True)) = fs
   \<and> rotate_file E self fs p True =
       (case map_of fs p of
          None \<Rightarrow> (Inr None, self, fs)
        | Some n \<Rightarrow>
            (Inr (Some \<lparr>source = p, destination = dest_path E self p,
                        original_size = st_size n, compressed_size = None,
                        timestamp = now E\<rparr>), self, fs))
   \<and> (\<forall>r self' fs'. rotate_file E self fs p False = (Inr (Some r), self', fs') \<longrightarrow>
         (\<exists>r0. fst (rotate_file E self fs p True) = Inr (Some r0)
               \<and> source r0 = source r \<and> destination r0 = destination r
               \<and> original_size r0 = original_size r \<and> compressed_size r0 = None))
   \<and> (fst (rotate_file E self fs p False) = Inr None
        \<longleftrightarrow> fst (rotate_file E self fs p True) = Inr None)"
proof -
  have a: "snd (snd (rotate_file E self fs p True)) = fs"
    by (simp add: rotate_file_dry split: option.splits)
  have b: "snd (cleanup_old E self fs d True) = fs"
    by (simp add: cleanup_old_dry)
  have c: "snd (snd (rotate E self fs pat True)) = fs"
    using rotate_loop_dry [of E "sort (glob E fs pat)" self fs "[]"]
    by (auto simp: rotate_def)
  have e: "\<exists>r0. fst (rotate_file E self fs p True) = Inr (Some r0)
               \<and> source r0 = source r \<and> destination r0 = destination r
               \<and> original_size r0 = original_size r \<and> compressed_size r0 = None"
    if "rotate_file E self fs p False = (Inr (Some r), self', fs')" for r self' fs'
    using rotate_file_result [OF that] by (auto simp: rotate_file_dry)
  have f: "fst (rotate_file E self fs p False) = Inr None
        \<longleftrightarrow> fst (rotate_file E self fs p True) = Inr None"
    by (simp add: rotate_file_none_iff)
  from a b c e f show ?thesis
    by (simp only: rotate_file_dry) blast
qed

lemma live0:
  "rotate_file env0 (LogRotator_init (Some policy0)) fs0 ''a.log'' False
     = (Inr (Some \<lparr>source = ''a.log'', destination = ''a.T.log.gz'', original_size = 11,
                   compressed_size = Some 13, timestamp = 1000\<rparr>),
        \<lparr>policy = policy0,
          results = [\<lparr>source = ''a.log'', destination = ''a.T.log.gz'', original_size = 11,
                      compressed_size = Some 13, timestamp = 1000\<rparr>]\<rparr>,
        [(''a.log'', File [] 1000), (''b.log'', File ''0123456789'' 6),
         (''c.log'', File ''hi'' 7),
         (''a.T.log.gz'', File ([CHR 0x1F, CHR 0x8B] @ ''hello world'') 1000)])"
  apply (simp add: rotate_file_def dest0 backend0 Let_def)
  apply (simp add: fs0_def path_exists_def stat_def write_archive_def read_file_def
      write_file_def compressed_def env0_def Let_def LogRotator_init_def policy0_def
      RotationPolicy_default_def)
  done

theorem dry_run_changes_nothing_witness:
  "\<exists>r0. rotate_file env0 (LogRotator_init (Some policy0)) fs0 ''a.log'' True
          = (Inr (Some r0), LogRotator_init (Some policy0), fs0)
        \<and> source r0 = ''a.log'' \<and> destination r0 = ''a.T.log.gz'' \<and> original_size r0 = 11
        \<and> compressed_size r0 = None"
proof -
  note th = dry_run_changes_nothing
    [of env0 "LogRotator_init (Some policy0)" fs0 "''a.log''" "''.''" "''*.log''"]
  from th [THEN conjunct2, THEN conjunct2, THEN conjunct2, THEN conjunct2, THEN conjunct1,
      rule_format, OF live0]
  obtain r0 where r0: "fst (rotate_file env0 (LogRotator_init (Some policy0)) fs0 ''a.log'' True)
        = Inr (Some r0)" "source r0 = ''a.log''" "destination r0 = ''a.T.log.gz''"
      "original_size r0 = 11" "compressed_size r0 = None"
    by auto
  have "map_of fs0 ''a.log'' = Some (File ''hello world'' 5)"
    by (simp add: fs0_def)
  with th [THEN conjunct2, THEN conjunct2, THEN conjunct2, THEN conjunct1] r0(1)
  have "rotate_file env0 (LogRotator_init (Some policy0)) fs0 ''a.log'' True
          = (Inr (Some r0), LogRotator_init (Some policy0), fs0)"
    by simp
  with r0 show ?thesis by blast
qed

section \<open>The summary\<close>









lemma floor_rat_numeral: "\<lfloor>numeral a / numeral b :: rat\<rfloor> = numeral a div numeral b"
  by (metis floor_divide_of_int_eq of_int_numeral)

text \<open>How \<^verbatim>\<open>or\<close> reads an optional size, and the summary after the rotation of \<^verbatim>\<open>a.log\<close>.\<close>

lemma py_or_cases:
  "py_or None n = n \<and> py_or (Some 0) n = n \<and> py_or (Some (Suc k)) n = Suc k"
  by (simp add: py_or_def)

lemma summary_example:
  "summary \<lparr>policy = policy0,
            results = [\<lparr>source = ''a.log'', destination = ''a.T.log.gz'', original_size = 11,
                        compressed_size = Some 13, timestamp = 1000\<rparr>]\<rparr>
     = ''Rotated 1 file(s)'' @ [CHR 0x0A] @ ''Original total: 0.00 MB'' @ [CHR 0x0A]
       @ ''Compressed total: 0.00 MB'' @ [CHR 0x0A] @ ''Space saved: -18.2%''"
  apply (simp add: summary_def total_original_def total_compressed_def py_or_def
      ratio_def Let_def)
  apply (simp add: format_f_def round_half_even_def Let_def floor_rat_numeral)
  done



end
